theory Spec2Isabelle
  imports Main "HOL-Library.AList"
begin

section \<open>Python values and exceptions\<close>

text \<open>
  The values that flow through \<^verbatim>\<open>documents.py\<close> and \<^verbatim>\<open>collections.py\<close>: field
  values, raw documents (Python dicts with string keys, kept as association lists in
  insertion order), pipelines (lists of dicts), store identities, and the opaque
  objects of the collaborators (the driver's acknowledgments, a data frame), which
  are an object with a class name and attributes.
\<close>

datatype pyval =
    PNone
  | PInt int
  | PStr string
  | PObjectId string
  | PList "pyval list"
  | PDict "(string \<times> pyval) list"
  | PObject string "(string \<times> pyval) list"

type_synonym pydict = "(string \<times> pyval) list"

text \<open>
  The exceptions of the model. \<open>ValidationError\<close> is what the schema engine raises;
  \<open>TypeError\<close>, \<open>AttributeError\<close> (with the missing attribute) and
  \<open>UnboundLocalError\<close> (with the variable) are raised by the interpreter on the
  mediator's own code; \<open>OtherError\<close> stands for any other exception of class
  \<^verbatim>\<open>Exception\<close> that the driver or the error handler raises. \<open>KeyboardInterrupt\<close>
  and \<open>SystemExit\<close> derive from \<^verbatim>\<open>BaseException\<close> and not from \<^verbatim>\<open>Exception\<close>: an
  \<^verbatim>\<open>except Exception\<close> clause does not catch them.
\<close>

datatype exn =
    ValidationError
  | TypeError
  | AttributeError string
  | UnboundLocalError string
  | OtherError string
  | KeyboardInterrupt
  | SystemExit

fun is_exception :: "exn \<Rightarrow> bool" where
  "is_exception KeyboardInterrupt = False"
| "is_exception SystemExit = False"
| "is_exception e = True"

fun raised :: "exn + 'a \<Rightarrow> exn option" where
  "raised (Inl e) = Some e"
| "raised (Inr v) = None"

section \<open>The document model (documents.py)\<close>

text \<open>
  \<^verbatim>\<open>BaseDocument\<close> declares one field, \<^verbatim>\<open>mongoid: Optional[str] = Field(None, ...)\<close>;
  a document kind is a subclass that declares more. The typed construction of a
  declared field belongs to the schema engine (pydantic), so a field is taken as its
  name, the engine's validator for its type (\<open>None\<close>: the value is rejected) and its
  default (\<open>None\<close>: the field is required). Python's builtin \<^verbatim>\<open>str\<close> is a parameter
  of the model class as well.
\<close>

record field_spec =
  fname :: string
  fvalidate :: "pyval \<Rightarrow> pyval option"
  fdefault :: "pyval option"

record model_class =
  str_of :: "pyval \<Rightarrow> string"
  declared :: "field_spec list"

text \<open>A validated record: the identity attribute and the declared fields, in
  declaration order.\<close>

record document =
  mongoid :: pyval
  field_values :: pydict

text \<open>
  \<^verbatim>\<open>
  @root_validator(pre=True)
  def handle_objectid(cls, values):
      if '_id' in values:
          values['mongoid'] = str(values.pop('_id'))
      return values
  \<close>
  \<open>values\<close> is the dict of keyword arguments of the constructor call, a fresh dict,
  so the caller's mapping is not touched. \<^verbatim>\<open>pop\<close> removes the key, the assignment
  replaces the value of an existing key in place or appends a new key.
\<close>

definition handle_objectid :: "(pyval \<Rightarrow> string) \<Rightarrow> pydict \<Rightarrow> pydict" where
  "handle_objectid str values =
     (case map_of values ''_id'' of
        Some x \<Rightarrow> AList.update ''mongoid'' (PStr (str x)) (AList.delete ''_id'' values)
      | None \<Rightarrow> values)"

text \<open>The engine's validator of \<^verbatim>\<open>Optional[str]\<close>: \<^verbatim>\<open>None\<close> and strings pass
  unchanged, a number is converted with \<^verbatim>\<open>str\<close>, any other value is rejected.\<close>

fun optional_str :: "(pyval \<Rightarrow> string) \<Rightarrow> pyval \<Rightarrow> pyval option" where
  "optional_str str PNone = Some PNone"
| "optional_str str (PStr s) = Some (PStr s)"
| "optional_str str (PInt i) = Some (PStr (str (PInt i)))"
| "optional_str str v = None"

definition mongoid_field :: "(pyval \<Rightarrow> string) \<Rightarrow> field_spec" where
  "mongoid_field str =
     \<lparr>fname = ''mongoid'', fvalidate = optional_str str, fdefault = Some PNone\<rparr>"

text \<open>One field of the typed construction: the value given under the field's name is
  validated; a missing value is the default, and an error for a required field.\<close>

definition validate_field :: "pydict \<Rightarrow> field_spec \<Rightarrow> pyval option" where
  "validate_field values f =
     (case map_of values (fname f) of
        Some v \<Rightarrow> fvalidate f v
      | None \<Rightarrow> fdefault f)"

text \<open>All declared fields; keys of the input that are no field are ignored. One
  failing field fails the construction.\<close>

fun typed_fields :: "field_spec list \<Rightarrow> pydict \<Rightarrow> pydict option" where
  "typed_fields [] values = Some []"
| "typed_fields (f # fs) values =
     (case validate_field values f of
        None \<Rightarrow> None
      | Some v \<Rightarrow> (case typed_fields fs values of
                     None \<Rightarrow> None
                   | Some r \<Rightarrow> Some ((fname f, v) # r)))"

text \<open>The constructor call \<^verbatim>\<open>document_model(**data)\<close>: the pre-validator, then the
  typed construction of \<^verbatim>\<open>mongoid\<close> and of the declared fields.\<close>

definition BaseDocument :: "model_class \<Rightarrow> pydict \<Rightarrow> exn + document" where
  "BaseDocument m data =
     (let values = handle_objectid (str_of m) data in
      case validate_field values (mongoid_field (str_of m)) of
        None \<Rightarrow> Inl ValidationError
      | Some i \<Rightarrow> (case typed_fields (declared m) values of
                     None \<Rightarrow> Inl ValidationError
                   | Some fs \<Rightarrow> Inr \<lparr>mongoid = i, field_values = fs\<rparr>))"

text \<open>
  \<^verbatim>\<open>
  def dict(self, *args, **kwargs):
      model_dict = super().dict(*args, **kwargs)
      return {k: v for k, v in model_dict.items() if k != 'mongoid'}
  \<close>
\<close>

definition model_dict :: "document \<Rightarrow> pydict" where
  "model_dict d = (''mongoid'', mongoid d) # field_values d"

definition dict :: "document \<Rightarrow> pydict" where
  "dict d = filter (\<lambda>(k, v). k \<noteq> ''mongoid'') (model_dict d)"

text \<open>A model class as pydantic builds it: the declared names are distinct, none
  redeclares \<^verbatim>\<open>mongoid\<close>, and none starts with an underscore (such a class attribute
  is no field).\<close>

definition wf_model :: "model_class \<Rightarrow> bool" where
  "wf_model m =
     (distinct (map fname (declared m)) \<and>
      list_all (\<lambda>f. fname f \<noteq> ''mongoid'' \<and> take 1 (fname f) \<noteq> ''_'') (declared m))"

section \<open>The collection mediator (collections.py)\<close>

subsection \<open>The store, the collaborators and what they observe\<close>

text \<open>The driver's collection handle: each method takes the store's state and
  returns a result or raises, and the next state.\<close>

record 'st driver =
  coll_aggregate :: "pyval list \<Rightarrow> 'st \<Rightarrow> (exn + pydict list) \<times> 'st"
  coll_insert_many :: "pydict list \<Rightarrow> 'st \<Rightarrow> (exn + pyval) \<times> 'st"
  coll_update_one :: "pydict \<Rightarrow> pydict \<Rightarrow> 'st \<Rightarrow> (exn + pyval) \<times> 'st"
  coll_update_many :: "pydict \<Rightarrow> pydict \<Rightarrow> 'st \<Rightarrow> (exn + pyval) \<times> 'st"
  coll_delete_one :: "pydict \<Rightarrow> 'st \<Rightarrow> (exn + pyval) \<times> 'st"
  coll_delete_many :: "pydict \<Rightarrow> 'st \<Rightarrow> (exn + pyval) \<times> 'st"

datatype call =
    Aggregate "pyval list"
  | InsertMany "pydict list"
  | UpdateOne pydict pydict
  | UpdateMany pydict pydict
  | DeleteOne pydict
  | DeleteMany pydict

text \<open>
  What spies on the collaborators record, in order: entering and leaving
  \<^verbatim>\<open>_execute_with_error_handling\<close>, a call of a driver method and a construction of
  the document model (each with the exception it raised, if any), and a call of the
  error handler.
\<close>

datatype event =
    Enter
  | Exit
  | Call call "exn option"
  | Validate pydict "exn option"
  | Handled exn

record 'st world =
  store :: 'st
  trace :: "event list"

type_synonym ('st, 'a) action = "'st world \<Rightarrow> (exn + 'a) \<times> 'st world"

definition emit :: "event \<Rightarrow> 'st world \<Rightarrow> 'st world" where
  "emit ev w = w\<lparr>trace := trace w @ [ev]\<rparr>"

definition return :: "'a \<Rightarrow> ('st, 'a) action" where
  "return v w = (Inr v, w)"

definition raise :: "exn \<Rightarrow> ('st, 'a) action" where
  "raise e w = (Inl e, w)"

text \<open>Sequencing of statements: an exception of the first ends the block.\<close>

definition and_then :: "('st, 'a) action \<Rightarrow> ('a \<Rightarrow> ('st, 'b) action) \<Rightarrow> ('st, 'b) action" where
  "and_then m k w =
     (case m w of
        (Inl e, w') \<Rightarrow> (Inl e, w')
      | (Inr v, w') \<Rightarrow> k v w')"

text \<open>
  \<^verbatim>\<open>
  def __init__(self, collection, document_model):
      self.collection = collection
      self.document_model = document_model
      self.error_handler = BaseErrorHandler()
  \<close>
  \<^verbatim>\<open>BaseErrorHandler\<close> is imported from another package. The boundary below drops
  what \<^verbatim>\<open>handle_error\<close> returns, so the handler is the exception it raises, if any.
\<close>

record 'st base_collection =
  collection :: "'st driver"
  document_model :: model_class
  error_handler :: "exn \<Rightarrow> exn option"

definition driver_call :: "call \<Rightarrow> ('st \<Rightarrow> (exn + 'a) \<times> 'st) \<Rightarrow> ('st, 'a) action" where
  "driver_call c method w =
     (case method (store w) of
        (r, s) \<Rightarrow> (r, emit (Call c (raised r)) (w\<lparr>store := s\<rparr>)))"

definition collection_aggregate :: "'st base_collection \<Rightarrow> pyval list \<Rightarrow> ('st, pydict list) action" where
  "collection_aggregate self pipeline =
     driver_call (Aggregate pipeline) (coll_aggregate (collection self) pipeline)"

definition collection_insert_many :: "'st base_collection \<Rightarrow> pydict list \<Rightarrow> ('st, pyval) action" where
  "collection_insert_many self docs =
     driver_call (InsertMany docs) (coll_insert_many (collection self) docs)"

definition collection_delete_one :: "'st base_collection \<Rightarrow> pydict \<Rightarrow> ('st, pyval) action" where
  "collection_delete_one self query =
     driver_call (DeleteOne query) (coll_delete_one (collection self) query)"

definition collection_delete_many :: "'st base_collection \<Rightarrow> pydict \<Rightarrow> ('st, pyval) action" where
  "collection_delete_many self query =
     driver_call (DeleteMany query) (coll_delete_many (collection self) query)"

definition call_document_model :: "'st base_collection \<Rightarrow> pydict \<Rightarrow> ('st, document) action" where
  "call_document_model self doc w =
     (let r = BaseDocument (document_model self) doc
      in (r, emit (Validate doc (raised r)) w))"

subsection \<open>The error-handling boundary\<close>

text \<open>
  \<^verbatim>\<open>
  @staticmethod
  def _execute_with_error_handling(func, error_handler, *args, **kwargs):
      try:
          return func(*args, **kwargs)
      except Exception as e:
          error_handler.handle_error(e)
  \<close>
  \<open>func\<close> is the unit of work with its keyword arguments already bound. The clause
  catches an exception of class \<^verbatim>\<open>Exception\<close> only; any other passes to the caller
  and the handler is not called. When the handler returns, the function falls off its
  end: the result is \<^verbatim>\<open>None\<close>, here \<open>None\<close>, whatever the handler returned.
\<close>

definition execute_with_error_handling ::
  "('st, 'a) action \<Rightarrow> (exn \<Rightarrow> exn option) \<Rightarrow> ('st, 'a option) action" where
  "execute_with_error_handling func handler w =
     (case func (emit Enter w) of
        (Inr v, w') \<Rightarrow> (Inr (Some v), emit Exit w')
      | (Inl e, w') \<Rightarrow>
          if is_exception e
          then (case handler e of
                  None \<Rightarrow> (Inr None, emit Exit (emit (Handled e) w'))
                | Some e' \<Rightarrow> (Inl e', emit Exit (emit (Handled e) w')))
          else (Inl e, emit Exit w'))"

subsection \<open>Validation of a list of documents\<close>

text \<open>
  \<^verbatim>\<open>
  def _validate_docs(self, docs):
      def aux_func(docs):
          return [self.document_model(**doc) for doc in docs]
      return self._execute_with_error_handling(
          func = aux_func, error_handler=self.error_handler, docs=docs)
  \<close>
  The comprehension constructs the documents in order and ends at the first
  exception. \<open>docs\<close> is \<open>None\<close> when the caller passes a result that the boundary
  replaced by \<^verbatim>\<open>None\<close>; iterating it raises \<^verbatim>\<open>TypeError\<close>.
\<close>

fun construct_all :: "'st base_collection \<Rightarrow> pydict list \<Rightarrow> ('st, document list) action" where
  "construct_all self [] = return []"
| "construct_all self (doc # docs) =
     and_then (call_document_model self doc) (\<lambda>d.
     and_then (construct_all self docs) (\<lambda>ds.
     return (d # ds)))"

definition aux_func :: "'st base_collection \<Rightarrow> pydict list option \<Rightarrow> ('st, document list) action" where
  "aux_func self docs =
     (case docs of
        None \<Rightarrow> raise TypeError
      | Some ds \<Rightarrow> construct_all self ds)"

definition validate_docs ::
  "'st base_collection \<Rightarrow> pydict list option \<Rightarrow> ('st, document list option) action" where
  "validate_docs self docs =
     execute_with_error_handling (aux_func self docs) (error_handler self)"

subsection \<open>find\<close>

text \<open>
  \<^verbatim>\<open>
  def _execute_find(self, query, pipeline_steps = []):
      def find_agg(query, pipeline_steps):
          pipeline = [{'$match': query}]
          if pipeline_steps:
              pipeline += pipeline_steps
          return list(self.collection.aggregate(pipeline))
      return self._execute_with_error_handling(func=find_agg, ...)
  \<close>
  \<open>pipeline_steps\<close> is a list or \<^verbatim>\<open>None\<close> (the default of \<^verbatim>\<open>find_by_id\<close>); both
  \<^verbatim>\<open>None\<close> and the empty list are false.
\<close>

definition find_agg ::
  "'st base_collection \<Rightarrow> pydict \<Rightarrow> pyval list option \<Rightarrow> ('st, pydict list) action" where
  "find_agg self query pipeline_steps =
     (let pipeline = [PDict [(''$match'', PDict query)]];
          pipeline = (case pipeline_steps of
                        Some (s # ss) \<Rightarrow> pipeline @ (s # ss)
                      | _ \<Rightarrow> pipeline)
      in collection_aggregate self pipeline)"

definition execute_find ::
  "'st base_collection \<Rightarrow> pydict \<Rightarrow> pyval list option \<Rightarrow> ('st, pydict list option) action" where
  "execute_find self query pipeline_steps =
     execute_with_error_handling (find_agg self query pipeline_steps) (error_handler self)"

text \<open>The value of a find result: a list of raw documents, or \<^verbatim>\<open>None\<close>.\<close>

definition py_result :: "pydict list option \<Rightarrow> pyval" where
  "py_result result =
     (case result of
        None \<Rightarrow> PNone
      | Some ds \<Rightarrow> PList (map PDict ds))"

text \<open>
  \<^verbatim>\<open>
  def _handle_result(self, result, func = None, validate = True):
      if validate:
          validated_docs = self._validate_docs(result)
      if func:
          validated_docs = func(validated_docs)
          return validated_docs
      return result
  \<close>
  The local variable \<^verbatim>\<open>validated_docs\<close> is bound only when \<open>validate\<close> is true: it is
  an option here, \<open>None\<close> for unbound, and reading it unbound raises
  \<^verbatim>\<open>UnboundLocalError\<close> before \<open>func\<close> is called.
\<close>

definition handle_result ::
  "'st base_collection \<Rightarrow> pydict list option \<Rightarrow>
   (document list option \<Rightarrow> exn + pyval) option \<Rightarrow> bool \<Rightarrow> ('st, pyval) action" where
  "handle_result self result func validate =
     and_then (if validate
               then and_then (validate_docs self result) (\<lambda>v. return (Some v))
               else return None) (\<lambda>validated_docs.
     case func of
       Some f \<Rightarrow> (case validated_docs of
                    None \<Rightarrow> raise (UnboundLocalError ''validated_docs'')
                  | Some v \<Rightarrow> (\<lambda>w. (f v, w)))
     | None \<Rightarrow> return (py_result result))"

text \<open>
  \<^verbatim>\<open>
  def find(self, query, pipeline_steps = [], handle_func = None):
      return self._handle_result(
          result = self._execute_find(query=query, pipeline_steps=pipeline_steps),
          func=handle_func, validate=False)
  \<close>
\<close>

definition find ::
  "'st base_collection \<Rightarrow> pydict \<Rightarrow> pyval list option \<Rightarrow>
   (document list option \<Rightarrow> exn + pyval) option \<Rightarrow> ('st, pyval) action" where
  "find self query pipeline_steps handle_func =
     and_then (execute_find self query pipeline_steps) (\<lambda>result.
     handle_result self result handle_func False)"


subsection \<open>insert\<close>

text \<open>
  \<^verbatim>\<open>
  def _execute_insertion(self, func, docs, find_query):
      def insert_documents(docs):
          if isinstance(docs, dict):
              validated_doc = self.document_model(**docs)
              result = func([validated_doc.dict()])
          else:
              validated_docs = self._validate_docs(docs)
              result = func([doc.dict() for doc in validated_docs])
          return result
      return self._execute_with_error_handling(func=insert_documents, ...)
  \<close>
  \<open>docs\<close> is \<^verbatim>\<open>Union[dict, list[dict]]\<close>. \<open>find_query\<close> is never read, so it is not a
  parameter here. In the list branch \<^verbatim>\<open>_validate_docs\<close> returns \<^verbatim>\<open>None\<close> when its own
  boundary handled a failure, and iterating \<^verbatim>\<open>None\<close> raises \<^verbatim>\<open>TypeError\<close>.
\<close>

datatype docs_arg = OneDoc pydict | ManyDocs "pydict list"

definition insert_documents ::
  "'st base_collection \<Rightarrow> (pydict list \<Rightarrow> ('st, pyval) action) \<Rightarrow> docs_arg \<Rightarrow> ('st, pyval) action" where
  "insert_documents self func docs =
     (case docs of
        OneDoc doc \<Rightarrow>
          and_then (call_document_model self doc) (\<lambda>validated_doc.
          func [dict validated_doc])
      | ManyDocs ds \<Rightarrow>
          and_then (validate_docs self (Some ds)) (\<lambda>validated_docs.
          case validated_docs of
            None \<Rightarrow> raise TypeError
          | Some vs \<Rightarrow> func (map dict vs)))"

definition execute_insertion ::
  "'st base_collection \<Rightarrow> (pydict list \<Rightarrow> ('st, pyval) action) \<Rightarrow> docs_arg \<Rightarrow>
   ('st, pyval option) action" where
  "execute_insertion self func docs =
     execute_with_error_handling (insert_documents self func docs) (error_handler self)"

definition insert_many :: "'st base_collection \<Rightarrow> pydict list \<Rightarrow> ('st, pyval option) action" where
  "insert_many self docs =
     execute_insertion self (collection_insert_many self) (ManyDocs docs)"

definition insert_one :: "'st base_collection \<Rightarrow> pydict \<Rightarrow> ('st, pyval option) action" where
  "insert_one self doc =
     execute_insertion self (collection_insert_many self) (OneDoc doc)"

text \<open>
  \<^verbatim>\<open>
  def insert_by_id(self, document_id, document_data):
      document_data["_id"] = document_id
      return self.insert_one(document_data)
  \<close>
  The assignment writes into the caller's mapping, so the mapping as the caller sees
  it afterwards is part of the result. \<^verbatim>\<open>insert_one\<close> passes it on as keyword
  arguments and does not write into it.
\<close>

definition insert_by_id ::
  "'st base_collection \<Rightarrow> pyval \<Rightarrow> pydict \<Rightarrow> 'st world \<Rightarrow>
   pydict \<times> (exn + pyval option) \<times> 'st world" where
  "insert_by_id self document_id document_data w =
     (let document_data = AList.update ''_id'' document_id document_data
      in (document_data, insert_one self document_data w))"

subsection \<open>update\<close>

text \<open>
  \<^verbatim>\<open>
  def _execute_update(self, func, query, update_data):
      result = self.execute_with_handling(
          func=func, error_handler=self.error_handler,
          query=query, update={'$set': update_data})
      if result.matched_count > 0:
          return self.find_one(query) if func == self.collection.update_one else self.find(query)
      return None if func == self.collection.update_one else []
  \<close>
  \<^verbatim>\<open>BaseCollection\<close> defines \<^verbatim>\<open>_execute_with_error_handling\<close>; it has no attribute
  \<^verbatim>\<open>execute_with_handling\<close> and no attribute \<^verbatim>\<open>find_one\<close>. Looking up a missing
  attribute raises \<^verbatim>\<open>AttributeError\<close>, and the callee is looked up before any
  argument is evaluated: the first statement raises, and \<open>func\<close> is not called.
  \<open>func\<close> is one of the two driver methods, compared by identity.
\<close>

datatype update_method = Update_one | Update_many

definition getattr :: "pyval option \<Rightarrow> string \<Rightarrow> exn + pyval" where
  "getattr obj name =
     (case obj of
        Some (PObject cls attrs) \<Rightarrow>
          (case map_of attrs name of
             Some v \<Rightarrow> Inr v
           | None \<Rightarrow> Inl (AttributeError name))
      | _ \<Rightarrow> Inl (AttributeError name))"

definition greater_zero :: "pyval \<Rightarrow> exn + bool" where
  "greater_zero v = (case v of PInt n \<Rightarrow> Inr (0 < n) | _ \<Rightarrow> Inl TypeError)"

definition execute_update ::
  "'st base_collection \<Rightarrow> update_method \<Rightarrow> pydict \<Rightarrow> pydict \<Rightarrow> ('st, pyval) action" where
  "execute_update self func query update_data =
     and_then (raise (AttributeError ''execute_with_handling'')) (\<lambda>result.
     and_then (\<lambda>w. (getattr result ''matched_count'', w)) (\<lambda>matched_count.
     and_then (\<lambda>w. (greater_zero matched_count, w)) (\<lambda>matched.
     if matched
     then (if func = Update_one
           then raise (AttributeError ''find_one'')
           else find self query (Some []) None)
     else return (if func = Update_one then PNone else PList []))))"

definition update_one :: "'st base_collection \<Rightarrow> pydict \<Rightarrow> pydict \<Rightarrow> ('st, pyval) action" where
  "update_one self query update_data = execute_update self Update_one query update_data"

definition update_many :: "'st base_collection \<Rightarrow> pydict \<Rightarrow> pydict \<Rightarrow> ('st, pyval) action" where
  "update_many self query update_data = execute_update self Update_many query update_data"


subsection \<open>delete\<close>

text \<open>
  \<^verbatim>\<open>
  def _execute_delete(self, func, query):
      result = self._execute_with_error_handling(
          func=func, error_handler=self.error_handler, filter=query)
      return result
  \<close>
\<close>

definition execute_delete ::
  "'st base_collection \<Rightarrow> (pydict \<Rightarrow> ('st, pyval) action) \<Rightarrow> pydict \<Rightarrow> ('st, pyval option) action" where
  "execute_delete self func query =
     execute_with_error_handling (func query) (error_handler self)"

definition delete_one :: "'st base_collection \<Rightarrow> pydict \<Rightarrow> ('st, pyval option) action" where
  "delete_one self query = execute_delete self (collection_delete_one self) query"

definition delete_many :: "'st base_collection \<Rightarrow> pydict \<Rightarrow> ('st, pyval option) action" where
  "delete_many self query = execute_delete self (collection_delete_many self) query"


subsection \<open>Every operation, by what the caller observes\<close>








definition store_calls :: "event list \<Rightarrow> call list" where
  "store_calls evs = concat (map (\<lambda>ev. case ev of Call c x \<Rightarrow> [c] | _ \<Rightarrow> []) evs)"

text \<open>What the boundary returns for an exception it caught: \<^verbatim>\<open>None\<close> when the
  handler returns, the handler's exception when it raises.\<close>

definition disposition :: "(exn \<Rightarrow> exn option) \<Rightarrow> exn \<Rightarrow> exn + 'a option" where
  "disposition handler e = (case handler e of None \<Rightarrow> Inr None | Some e' \<Rightarrow> Inl e')"

subsection \<open>The operations in closed form\<close>

text \<open>
  The functions below are not in the source: they name what the operations above
  compute, so that each operation can be stated as one equation. \<open>log\<close> appends a
  stretch of events; \<open>handled\<close> is the handler call the boundary makes for a result;
  \<open>caught\<close> is what the boundary returns for a result.
\<close>

definition log :: "event list \<Rightarrow> 'st world \<Rightarrow> 'st world" where
  "log evs w = w\<lparr>trace := trace w @ evs\<rparr>"

fun handled :: "exn + 'a \<Rightarrow> event list" where
  "handled (Inl e) = (if is_exception e then [Handled e] else [])"
| "handled (Inr v) = []"

fun caught :: "(exn \<Rightarrow> exn option) \<Rightarrow> exn + 'a \<Rightarrow> exn + 'a option" where
  "caught handler (Inl e) = (if is_exception e then disposition handler e else Inl e)"
| "caught handler (Inr v) = Inr (Some v)"

text \<open>The documents a list comprehension over the constructor produces, and the
  constructions it makes: in order, up to and including the first that fails.\<close>

fun validate_all :: "model_class \<Rightarrow> pydict list \<Rightarrow> exn + document list" where
  "validate_all m [] = Inr []"
| "validate_all m (doc # docs) =
     (case BaseDocument m doc of
        Inl e \<Rightarrow> Inl e
      | Inr d \<Rightarrow> (case validate_all m docs of
                    Inl e \<Rightarrow> Inl e
                  | Inr ds \<Rightarrow> Inr (d # ds)))"

fun validation_events :: "model_class \<Rightarrow> pydict list \<Rightarrow> event list" where
  "validation_events m [] = []"
| "validation_events m (doc # docs) =
     (case BaseDocument m doc of
        Inl e \<Rightarrow> [Validate doc (Some e)]
      | Inr d \<Rightarrow> Validate doc None # validation_events m docs)"

text \<open>The exception that reaches the outer boundary when the validation of a list
  failed with \<open>e\<close>: what the handler raised for \<open>e\<close>, or the \<^verbatim>\<open>TypeError\<close> of
  iterating \<^verbatim>\<open>None\<close> when it returned.\<close>

definition second_error :: "(exn \<Rightarrow> exn option) \<Rightarrow> exn \<Rightarrow> exn" where
  "second_error handler e = (case handler e of None \<Rightarrow> TypeError | Some e' \<Rightarrow> e')"

text \<open>The pipeline of a find: the match stage, then the extension.\<close>

definition pipeline_of :: "pydict \<Rightarrow> pyval list option \<Rightarrow> pyval list" where
  "pipeline_of query pipeline_steps =
     PDict [(''$match'', PDict query)] # (case pipeline_steps of None \<Rightarrow> [] | Some ss \<Rightarrow> ss)"

text \<open>What an operation appended to the record of the spies.\<close>

definition new_events :: "'st world \<Rightarrow> 'st world \<Rightarrow> event list" where
  "new_events w w' = drop (length (trace w)) (trace w')"


subsection \<open>Validators and the round trip\<close>

text \<open>The typed construction of a field is stable when a value it produced is
  accepted again unchanged, and so is the field's default.\<close>

definition stable_field :: "field_spec \<Rightarrow> bool" where
  "stable_field f =
     ((\<forall>v v'. fvalidate f v = Some v' \<longrightarrow> fvalidate f v' = Some v') \<and>
      (\<forall>d. fdefault f = Some d \<longrightarrow> fvalidate f d = Some d))"

definition stable_model :: "model_class \<Rightarrow> bool" where
  "stable_model m = list_all stable_field (declared m)"

text \<open>The record \<open>r\<close> validates again under \<open>m\<close>: the validator of every declared
  field returns the record's value of that field unchanged.\<close>

definition accepts_own :: "pydict \<Rightarrow> field_spec \<Rightarrow> bool" where
  "accepts_own values f =
     (case map_of values (fname f) of
        None \<Rightarrow> False
      | Some v \<Rightarrow> fvalidate f v = Some v)"

definition revalidates :: "model_class \<Rightarrow> document \<Rightarrow> bool" where
  "revalidates m r = list_all (accepts_own (field_values r)) (declared m)"

subsection \<open>A sample document kind, store and handlers\<close>

text \<open>
  A document kind with a required string field \<^verbatim>\<open>name\<close> and a string field
  \<^verbatim>\<open>city\<close> with a default; an in-memory store whose state is the list of stored
  documents; and three handler policies: swallow everything, re-raise everything,
  and swallow validation failures only. \<open>sample_str\<close> is \<^verbatim>\<open>str\<close> on object
  identities, strings and \<^verbatim>\<open>None\<close>; the samples apply it to nothing else.
\<close>

fun sample_str :: "pyval \<Rightarrow> string" where
  "sample_str (PObjectId h) = h"
| "sample_str (PStr s) = s"
| "sample_str v = ''None''"

fun str_type :: "pyval \<Rightarrow> pyval option" where
  "str_type (PStr s) = Some (PStr s)"
| "str_type v = None"

definition sample_model :: model_class where
  "sample_model =
     \<lparr>str_of = sample_str,
      declared =
        [\<lparr>fname = ''name'', fvalidate = str_type, fdefault = None\<rparr>,
         \<lparr>fname = ''city'', fvalidate = str_type, fdefault = Some (PStr ''unknown'')\<rparr>]\<rparr>"

definition insert_ack :: "nat \<Rightarrow> pyval" where
  "insert_ack n = PObject ''InsertManyResult'' [(''inserted'', PInt (int n))]"

definition update_ack :: "nat \<Rightarrow> pyval" where
  "update_ack n = PObject ''UpdateResult'' [(''matched_count'', PInt (int n))]"

definition delete_ack :: "nat \<Rightarrow> pyval" where
  "delete_ack n = PObject ''DeleteResult'' [(''deleted_count'', PInt (int n))]"

text \<open>The sample store answers every query with all its documents, refuses an empty
  batch as the real driver does, and takes every stored document as matched by an
  update or a delete (the first one only for \<^verbatim>\<open>update_one\<close> and \<^verbatim>\<open>delete_one\<close>).\<close>

definition memory_driver :: "pydict list driver" where
  "memory_driver =
     \<lparr>coll_aggregate = (\<lambda>pipeline s. (Inr s, s)),
      coll_insert_many = (\<lambda>docs s.
         if docs = [] then (Inl (OtherError ''InvalidOperation''), s)
         else (Inr (insert_ack (length docs)), s @ docs)),
      coll_update_one = (\<lambda>query update s. (Inr (update_ack (min 1 (length s))), s)),
      coll_update_many = (\<lambda>query update s. (Inr (update_ack (length s)), s)),
      coll_delete_one = (\<lambda>query s. (Inr (delete_ack (min 1 (length s))), tl s)),
      coll_delete_many = (\<lambda>query s. (Inr (delete_ack (length s)), []))\<rparr>"

text \<open>The same store with a delete that is interrupted from the keyboard.\<close>

definition interrupted_driver :: "pydict list driver" where
  "interrupted_driver =
     memory_driver\<lparr>coll_delete_one := (\<lambda>query s. (Inl KeyboardInterrupt, s))\<rparr>"

text \<open>A document kind with one required field \<^verbatim>\<open>n\<close> whose validator adds one to
  the number given.\<close>

fun bump :: "pyval \<Rightarrow> pyval option" where
  "bump (PInt i) = Some (PInt (i + 1))"
| "bump v = None"

definition bump_model :: model_class where
  "bump_model = \<lparr>str_of = sample_str, declared = [\<lparr>fname = ''n'', fvalidate = bump, fdefault = None\<rparr>]\<rparr>"

definition swallow :: "exn \<Rightarrow> exn option" where
  "swallow e = None"


fun swallow_validation :: "exn \<Rightarrow> exn option" where
  "swallow_validation ValidationError = None"
| "swallow_validation e = Some e"

definition sample_collection :: "(exn \<Rightarrow> exn option) \<Rightarrow> pydict list base_collection" where
  "sample_collection handler =
     \<lparr>collection = memory_driver, document_model = sample_model, error_handler = handler\<rparr>"

definition interrupted_collection :: "(exn \<Rightarrow> exn option) \<Rightarrow> pydict list base_collection" where
  "interrupted_collection handler =
     \<lparr>collection = interrupted_driver, document_model = sample_model, error_handler = handler\<rparr>"

definition world0 :: "pydict list \<Rightarrow> pydict list world" where
  "world0 s = \<lparr>store = s, trace = []\<rparr>"

definition ann :: pydict where
  "ann = [(''_id'', PObjectId ''65a0''), (''name'', PStr ''ann'')]"

definition nameless :: pydict where
  "nameless = [(''city'', PStr ''oslo'')]"

definition ann_record :: document where
  "ann_record =
     \<lparr>mongoid = PStr ''65a0'',
      field_values = [(''name'', PStr ''ann''), (''city'', PStr ''unknown'')]\<rparr>"

section \<open>The document model: identity and round trip\<close>

lemma typed_fields_keys:
  "typed_fields fs values = Some out \<Longrightarrow> map fst out = map fname fs"
  by (induction fs arbitrary: out) (auto split: option.splits)

lemma handle_objectid_mongoid:
  "map_of raw ''_id'' = Some x \<Longrightarrow>
   map_of (handle_objectid str raw) ''mongoid'' = Some (PStr (str x))"
  by (simp add: handle_objectid_def update_conv)

lemma handle_objectid_no_id:
  "map_of (handle_objectid str raw) ''_id'' = None"
  by (auto simp: handle_objectid_def update_conv delete_conv split: option.splits)

lemma validate_mongoid_with_id:
  "map_of raw ''_id'' = Some x \<Longrightarrow>
   validate_field (handle_objectid str raw) (mongoid_field str) = Some (PStr (str x))"
  by (simp add: validate_field_def mongoid_field_def handle_objectid_mongoid)

lemma underscore_id: "take 1 n \<noteq> ''_'' \<Longrightarrow> n \<noteq> ''_id''"
  by auto

lemma wf_model_names:
  "wf_model m \<Longrightarrow> ''_id'' \<notin> set (map fname (declared m)) \<and> ''mongoid'' \<notin> set (map fname (declared m))"
  unfolding wf_model_def list_all_iff using underscore_id by fastforce

lemma dict_eq: "dict r = filter (\<lambda>(k, v). k \<noteq> ''mongoid'') (field_values r)"
  by (simp add: dict_def model_dict_def)

text \<open>
  Claim C7. For a mapping that contains the store's identity field \<^verbatim>\<open>_id\<close> with
  value \<open>x\<close>, and a model class as the schema engine builds it: the identity never
  makes the construction fail (a record is produced exactly when the declared fields
  pass), and every record produced has \<^verbatim>\<open>mongoid\<close> equal to the string form of \<open>x\<close>,
  has no field \<^verbatim>\<open>_id\<close>, and serializes to a mapping with neither \<^verbatim>\<open>mongoid\<close>
  nor \<^verbatim>\<open>_id\<close>.
\<close>

theorem validate_relocates_identity:
  assumes id: "map_of raw ''_id'' = Some x"
    and wf: "wf_model m"
  shows "((\<exists>r. BaseDocument m raw = Inr r) =
            (typed_fields (declared m) (handle_objectid (str_of m) raw) \<noteq> None)) \<and>
         (\<forall>r. BaseDocument m raw = Inr r \<longrightarrow>
            mongoid r = PStr (str_of m x) \<and>
            ''_id'' \<notin> fst ` set (model_dict r) \<and>
            ''mongoid'' \<notin> fst ` set (dict r) \<and>
            ''_id'' \<notin> fst ` set (dict r))"
proof (intro conjI allI impI)
  show "(\<exists>r. BaseDocument m raw = Inr r) =
           (typed_fields (declared m) (handle_objectid (str_of m) raw) \<noteq> None)"
    using id by (auto simp: BaseDocument_def validate_mongoid_with_id split: option.splits)
next
  fix r assume ok: "BaseDocument m raw = Inr r"
  from ok id obtain fs where fs: "typed_fields (declared m) (handle_objectid (str_of m) raw) = Some fs"
    and r: "r = \<lparr>mongoid = PStr (str_of m x), field_values = fs\<rparr>"
    by (auto simp: BaseDocument_def validate_mongoid_with_id split: option.splits)
  have keys: "fst ` set fs = set (map fname (declared m))"
    using typed_fields_keys [OF fs] by (metis set_map)
  show "mongoid r = PStr (str_of m x)"
    using r by simp
  show "''_id'' \<notin> fst ` set (model_dict r)"
    using wf_model_names [OF wf] keys r by (auto simp: model_dict_def)
  show "''mongoid'' \<notin> fst ` set (dict r)"
    by (auto simp: dict_def)
  show "''_id'' \<notin> fst ` set (dict r)"
    using wf_model_names [OF wf] keys r by (auto simp: model_dict_def dict_def)
qed

lemma optional_str_fixed: "optional_str str v = Some i \<Longrightarrow> optional_str str i = Some i"
  by (cases v) auto

lemma stable_mongoid_field: "stable_field (mongoid_field str)"
  by (auto simp: stable_field_def mongoid_field_def dest: optional_str_fixed)

lemma validate_field_stable:
  "stable_field f \<Longrightarrow> validate_field values f = Some v \<Longrightarrow> fvalidate f v = Some v"
  by (auto simp: stable_field_def validate_field_def split: option.splits)

lemma typed_fields_lookup:
  "typed_fields fs values = Some out \<Longrightarrow> distinct (map fname fs) \<Longrightarrow> f \<in> set fs \<Longrightarrow>
   map_of out (fname f) = validate_field values f"
proof (induction fs arbitrary: out)
  case Nil
  then show ?case by simp
next
  case (Cons g gs)
  from Cons.prems(1) obtain v r where v: "validate_field values g = Some v"
    and r: "typed_fields gs values = Some r" and out: "out = (fname g, v) # r"
    by (auto split: option.splits)
  show ?case
  proof (cases "f = g")
    case True
    then show ?thesis using v out by simp
  next
    case False
    then have f: "f \<in> set gs" using Cons.prems(3) by simp
    then have "fname f \<in> set (map fname gs)" by simp
    then have "fname f \<noteq> fname g" using Cons.prems(2) by auto
    then show ?thesis
      using Cons.IH [OF r _ f] Cons.prems(2) out by simp
  qed
qed

lemma typed_fields_cong:
  "(\<And>f. f \<in> set fs \<Longrightarrow> validate_field v2 f = validate_field v1 f) \<Longrightarrow>
   typed_fields fs v2 = typed_fields fs v1"
proof (induction fs)
  case Nil
  then show ?case by simp
next
  case (Cons g gs)
  have "validate_field v2 g = validate_field v1 g" using Cons.prems by simp
  moreover have "typed_fields gs v2 = typed_fields gs v1" using Cons by simp
  ultimately show ?case by (simp split: option.splits)
qed

lemma typed_fields_again:
  assumes t1: "typed_fields fs v1 = Some out" and d: "distinct (map fname fs)"
    and agree: "\<And>f. f \<in> set fs \<Longrightarrow> map_of v2 (fname f) = map_of out (fname f)"
  shows "(typed_fields fs v2 = Some out) = list_all (accepts_own out) fs"
proof -
  have look: "map_of out (fname f) = validate_field v1 f" if "f \<in> set fs" for f
    using typed_fields_lookup [OF t1 d that] .
  have key: "(validate_field v2 f = validate_field v1 f) = accepts_own out f"
    if f: "f \<in> set fs" for f
  proof -
    have "fname f \<in> set (map fst out)"
      using typed_fields_keys [OF t1] f by simp
    then obtain v where v: "map_of out (fname f) = Some v"
      by (metis map_of_eq_None_iff not_Some_eq set_map)
    then have "map_of v2 (fname f) = Some v"
      using agree [OF f] by simp
    then show ?thesis
      using v look [OF f] by (auto simp: validate_field_def accepts_own_def)
  qed
  have "(typed_fields fs v2 = Some out) = (\<forall>f \<in> set fs. validate_field v2 f = validate_field v1 f)"
  proof
    assume t2: "typed_fields fs v2 = Some out"
    show "\<forall>f \<in> set fs. validate_field v2 f = validate_field v1 f"
    proof
      fix f assume f: "f \<in> set fs"
      show "validate_field v2 f = validate_field v1 f"
        using typed_fields_lookup [OF t2 d f] look [OF f] by simp
    qed
  next
    assume "\<forall>f \<in> set fs. validate_field v2 f = validate_field v1 f"
    then have "typed_fields fs v2 = typed_fields fs v1"
      by (intro typed_fields_cong) simp
    then show "typed_fields fs v2 = Some out" using t1 by simp
  qed
  then show ?thesis using key by (simp add: list_all_iff)
qed

text \<open>Re-validating any mapping that agrees with the record on every declared field
  name: the record comes back, with the identity the mapping gives, exactly when
  every declared field accepts its own value.\<close>

lemma BaseDocument_again:
  assumes wf: "wf_model m" and ok: "BaseDocument m raw = Inr r"
    and agree: "\<And>f. f \<in> set (declared m) \<Longrightarrow>
                  map_of (handle_objectid (str_of m) again) (fname f) =
                  map_of (field_values r) (fname f)"
    and idv: "validate_field (handle_objectid (str_of m) again) (mongoid_field (str_of m)) = Some i"
  shows "(BaseDocument m again = Inr \<lparr>mongoid = i, field_values = field_values r\<rparr>) =
           revalidates m r"
proof -
  from ok have t1: "typed_fields (declared m) (handle_objectid (str_of m) raw) = Some (field_values r)"
    by (auto simp: BaseDocument_def Let_def split: option.splits)
  have d: "distinct (map fname (declared m))"
    using wf by (simp add: wf_model_def)
  note again = typed_fields_again [OF t1 d agree]
  show ?thesis
    using idv again
    by (auto simp: BaseDocument_def Let_def revalidates_def split: option.splits)
qed

lemma mongoid_accepts_own:
  assumes ok: "BaseDocument m raw = Inr r"
  shows "optional_str (str_of m) (mongoid r) = Some (mongoid r)"
proof -
  from ok have "validate_field (handle_objectid (str_of m) raw) (mongoid_field (str_of m)) = Some (mongoid r)"
    by (auto simp: BaseDocument_def Let_def split: option.splits)
  from validate_field_stable [OF stable_mongoid_field this]
  show ?thesis by (simp add: mongoid_field_def)
qed

lemma dict_wf:
  assumes wf: "wf_model m" and ok: "BaseDocument m raw = Inr r"
  shows "dict r = field_values r" and "map fst (field_values r) = map fname (declared m)"
proof -
  from ok obtain i fs where fs: "typed_fields (declared m) (handle_objectid (str_of m) raw) = Some fs"
    and r: "r = \<lparr>mongoid = i, field_values = fs\<rparr>"
    by (auto simp: BaseDocument_def Let_def split: option.splits)
  show keys: "map fst (field_values r) = map fname (declared m)"
    using typed_fields_keys [OF fs] r by simp
  have "''mongoid'' \<notin> fst ` set (field_values r)"
    using wf_model_names [OF wf] keys by (metis set_map)
  then have "\<forall>p \<in> set (field_values r). fst p \<noteq> ''mongoid''"
    by (metis image_eqI)
  then show "dict r = field_values r"
    by (simp add: dict_eq filter_id_conv case_prod_beta)
qed

lemma handle_objectid_plain:
  "map_of values ''_id'' = None \<Longrightarrow> handle_objectid str values = values"
  by (simp add: handle_objectid_def)

text \<open>A model class whose typed construction is stable makes every record it
  produces validate again.\<close>

lemma stable_revalidates:
  assumes wf: "wf_model m" and st: "stable_model m" and ok: "BaseDocument m raw = Inr r"
  shows "revalidates m r"
proof -
  from ok have t1: "typed_fields (declared m) (handle_objectid (str_of m) raw) = Some (field_values r)"
    by (auto simp: BaseDocument_def Let_def split: option.splits)
  have d: "distinct (map fname (declared m))"
    using wf by (simp add: wf_model_def)
  have "accepts_own (field_values r) f" if f: "f \<in> set (declared m)" for f
  proof -
    have look: "map_of (field_values r) (fname f) = validate_field (handle_objectid (str_of m) raw) f"
      using typed_fields_lookup [OF t1 d f] .
    have "fname f \<in> set (map fst (field_values r))"
      using typed_fields_keys [OF t1] f by simp
    then obtain v where v: "map_of (field_values r) (fname f) = Some v"
      by (metis map_of_eq_None_iff not_Some_eq set_map)
    have "stable_field f"
      using st f by (simp add: stable_model_def list_all_iff)
    from validate_field_stable [OF this] look v have "fvalidate f v = Some v" by simp
    then show ?thesis using v by (simp add: accepts_own_def)
  qed
  then show ?thesis by (simp add: revalidates_def list_all_iff)
qed

text \<open>
  Claim C8, as amended. For a raw mapping that validates to a record \<open>r\<close>: the
  serialized record has neither \<^verbatim>\<open>mongoid\<close> nor \<^verbatim>\<open>_id\<close>; validating it extended with
  the record's identity attribute gives \<open>r\<close> again exactly when the validator of
  every declared field returns the record's value of that field unchanged; the same
  holds for the serialized record extended with the identity field \<^verbatim>\<open>_id\<close> of the
  raw mapping; and validating the serialized record alone gives, under the same
  condition and only then, \<open>r\<close> with the identity absent.
\<close>

theorem validate_serialize_roundtrip:
  assumes wf: "wf_model m" and ok: "BaseDocument m raw = Inr r"
  shows "''mongoid'' \<notin> fst ` set (dict r) \<and>
         ''_id'' \<notin> fst ` set (dict r) \<and>
         (BaseDocument m (AList.update ''mongoid'' (mongoid r) (dict r)) = Inr r) = revalidates m r \<and>
         (\<forall>x. map_of raw ''_id'' = Some x \<longrightarrow>
              (BaseDocument m (AList.update ''_id'' x (dict r)) = Inr r) = revalidates m r) \<and>
         (BaseDocument m (dict r) = Inr (r\<lparr>mongoid := PNone\<rparr>)) = revalidates m r"
proof (intro conjI allI impI)
  note d = dict_wf [OF wf ok]
  have names: "''_id'' \<notin> set (map fst (field_values r))" "''mongoid'' \<notin> set (map fst (field_values r))"
    using wf_model_names [OF wf] d(2) by simp_all
  have noid: "map_of (field_values r) ''_id'' = None"
    using names(1) by (metis map_of_eq_None_iff set_map)
  have nomid: "map_of (field_values r) ''mongoid'' = None"
    using names(2) by (metis map_of_eq_None_iff set_map)
  have decl: "fname f \<noteq> ''_id'' \<and> fname f \<noteq> ''mongoid''" if "f \<in> set (declared m)" for f
    using wf_model_names [OF wf] that by force
  have r: "r = \<lparr>mongoid = mongoid r, field_values = field_values r\<rparr>"
    by simp
  show "''mongoid'' \<notin> fst ` set (dict r)"
    using names(2) d(1) by simp
  show "''_id'' \<notin> fst ` set (dict r)"
    using names(1) d(1) by simp
  show "(BaseDocument m (AList.update ''mongoid'' (mongoid r) (dict r)) = Inr r) = revalidates m r"
  proof -
    have h: "handle_objectid (str_of m) (AList.update ''mongoid'' (mongoid r) (field_values r))
          = AList.update ''mongoid'' (mongoid r) (field_values r)"
      using noid by (simp add: handle_objectid_plain update_conv)
    have "(BaseDocument m (AList.update ''mongoid'' (mongoid r) (dict r)) =
            Inr \<lparr>mongoid = mongoid r, field_values = field_values r\<rparr>) = revalidates m r"
    proof (rule BaseDocument_again [OF wf ok])
      fix f assume "f \<in> set (declared m)"
      then have "fname f \<noteq> ''mongoid''"
        using decl by simp
      then show "map_of (handle_objectid (str_of m) (AList.update ''mongoid'' (mongoid r) (dict r))) (fname f)
            = map_of (field_values r) (fname f)"
        by (simp add: d(1) h update_conv)
    next
      show "validate_field (handle_objectid (str_of m) (AList.update ''mongoid'' (mongoid r) (dict r)))
              (mongoid_field (str_of m)) = Some (mongoid r)"
        by (simp add: d(1) h validate_field_def mongoid_field_def update_conv mongoid_accepts_own [OF ok])
    qed
    then show ?thesis by (metis r)
  qed
  show "(BaseDocument m (dict r) = Inr (r\<lparr>mongoid := PNone\<rparr>)) = revalidates m r"
  proof -
    have h: "handle_objectid (str_of m) (field_values r) = field_values r"
      using noid by (simp add: handle_objectid_plain)
    have "(BaseDocument m (dict r) = Inr \<lparr>mongoid = PNone, field_values = field_values r\<rparr>) =
            revalidates m r"
    proof (rule BaseDocument_again [OF wf ok])
      fix f assume "f \<in> set (declared m)"
      then show "map_of (handle_objectid (str_of m) (dict r)) (fname f) = map_of (field_values r) (fname f)"
        by (simp add: d(1) h)
    next
      show "validate_field (handle_objectid (str_of m) (dict r)) (mongoid_field (str_of m)) = Some PNone"
        using nomid by (simp add: d(1) h validate_field_def mongoid_field_def)
    qed
    moreover have "r\<lparr>mongoid := PNone\<rparr> = \<lparr>mongoid = PNone, field_values = field_values r\<rparr>"
      by simp
    ultimately show ?thesis by metis
  qed
next
  fix x assume x: "map_of raw ''_id'' = Some x"
  note d = dict_wf [OF wf ok]
  have decl: "fname f \<noteq> ''_id'' \<and> fname f \<noteq> ''mongoid''" if "f \<in> set (declared m)" for f
    using wf_model_names [OF wf] that by force
  have mid: "mongoid r = PStr (str_of m x)"
    using ok x by (auto simp: BaseDocument_def validate_mongoid_with_id split: option.splits)
  have "(BaseDocument m (AList.update ''_id'' x (dict r)) =
          Inr \<lparr>mongoid = mongoid r, field_values = field_values r\<rparr>) = revalidates m r"
  proof (rule BaseDocument_again [OF wf ok])
    fix f assume "f \<in> set (declared m)"
    then have "fname f \<noteq> ''_id'' \<and> fname f \<noteq> ''mongoid''"
      using decl by simp
    then show "map_of (handle_objectid (str_of m) (AList.update ''_id'' x (dict r))) (fname f)
          = map_of (field_values r) (fname f)"
      by (simp add: handle_objectid_def update_conv delete_conv d(1))
  next
    have "map_of (AList.update ''_id'' x (dict r)) ''_id'' = Some x"
      by (simp add: update_conv)
    from validate_mongoid_with_id [OF this]
    show "validate_field (handle_objectid (str_of m) (AList.update ''_id'' x (dict r)))
            (mongoid_field (str_of m)) = Some (mongoid r)"
      by (simp add: mid)
  qed
  moreover have "r = \<lparr>mongoid = mongoid r, field_values = field_values r\<rparr>"
    by simp
  ultimately show "(BaseDocument m (AList.update ''_id'' x (dict r)) = Inr r) = revalidates m r"
    by metis
qed

lemma sample_wf: "wf_model sample_model"
  by (simp add: wf_model_def sample_model_def)

lemma str_type_fixed: "str_type v = Some v' \<Longrightarrow> str_type v' = Some v'"
  by (cases v) auto

lemma sample_stable: "stable_model sample_model"
  by (auto simp: stable_model_def sample_model_def stable_field_def dest: str_type_fixed)

lemma ann_valid: "BaseDocument sample_model ann = Inr ann_record"
  by (simp add: BaseDocument_def ann_def ann_record_def sample_model_def handle_objectid_def
      validate_field_def mongoid_field_def)

theorem validate_relocates_identity_witness:
  "map_of ann ''_id'' = Some (PObjectId ''65a0'') \<and> wf_model sample_model \<and>
   (\<exists>r. BaseDocument sample_model ann = Inr r \<and> mongoid r = PStr ''65a0'' \<and>
        ''_id'' \<notin> fst ` set (model_dict r) \<and> ''mongoid'' \<notin> fst ` set (dict r) \<and>
        ''_id'' \<notin> fst ` set (dict r))"
proof -
  have id: "map_of ann ''_id'' = Some (PObjectId ''65a0'')"
    by (simp add: ann_def)
  show ?thesis
    using validate_relocates_identity [OF id sample_wf] id sample_wf ann_valid
    by (simp add: sample_model_def)
qed

lemma sample_revalidates: "revalidates sample_model ann_record"
  by (simp add: revalidates_def accepts_own_def sample_model_def ann_record_def)

theorem validate_serialize_roundtrip_witness:
  "wf_model sample_model \<and> BaseDocument sample_model ann = Inr ann_record \<and>
   revalidates sample_model ann_record \<and>
   BaseDocument sample_model
     [(''name'', PStr ''ann''), (''city'', PStr ''unknown''), (''mongoid'', PStr ''65a0'')] =
     Inr ann_record \<and>
   BaseDocument sample_model
     [(''name'', PStr ''ann''), (''city'', PStr ''unknown''), (''_id'', PObjectId ''65a0'')] =
     Inr ann_record \<and>
   BaseDocument sample_model [(''name'', PStr ''ann''), (''city'', PStr ''unknown'')] =
     Inr (ann_record\<lparr>mongoid := PNone\<rparr>)"
proof -
  have id: "map_of ann ''_id'' = Some (PObjectId ''65a0'')"
    by (simp add: ann_def)
  have d: "dict ann_record = [(''name'', PStr ''ann''), (''city'', PStr ''unknown'')]"
    by (simp add: dict_def model_dict_def ann_record_def)
  have m: "mongoid ann_record = PStr ''65a0''"
    by (simp add: ann_record_def)
  show ?thesis
    using validate_serialize_roundtrip [OF sample_wf ann_valid] id
      sample_wf ann_valid sample_revalidates
    by (simp add: d m)
qed

text \<open>
  Claim C8 as stated fails: under a document kind whose validator adds one, a
  mapping with \<^verbatim>\<open>n = 0\<close> validates to a record with \<^verbatim>\<open>n = 1\<close>, and validating the
  serialized record with the identity added back, either way, gives a record with
  \<^verbatim>\<open>n = 2\<close>.
\<close>

theorem roundtrip_bump_counterexample:
  "wf_model bump_model \<and>
   BaseDocument bump_model [(''_id'', PObjectId ''65a0''), (''n'', PInt 0)] =
     Inr \<lparr>mongoid = PStr ''65a0'', field_values = [(''n'', PInt 1)]\<rparr> \<and>
   dict \<lparr>mongoid = PStr ''65a0'', field_values = [(''n'', PInt 1)]\<rparr> = [(''n'', PInt 1)] \<and>
   BaseDocument bump_model (AList.update ''mongoid'' (PStr ''65a0'') [(''n'', PInt 1)]) =
     Inr \<lparr>mongoid = PStr ''65a0'', field_values = [(''n'', PInt 2)]\<rparr> \<and>
   BaseDocument bump_model (AList.update ''_id'' (PObjectId ''65a0'') [(''n'', PInt 1)]) =
     Inr \<lparr>mongoid = PStr ''65a0'', field_values = [(''n'', PInt 2)]\<rparr>"
  by (simp add: wf_model_def bump_model_def BaseDocument_def handle_objectid_def
      validate_field_def mongoid_field_def dict_def model_dict_def)

section \<open>The mediator: the operations in closed form and the claims\<close>

lemma log_simps [simp]:
  "trace (log evs w) = trace w @ evs"
  "store (log evs w) = store w"
  "log evs (log evs' w) = log (evs' @ evs) w"
  "emit ev w = log [ev] w"
  "log evs (w\<lparr>store := s\<rparr>) = (log evs w)\<lparr>store := s\<rparr>"
  by (simp_all add: log_def emit_def)

lemma boundary_eq:
  "func (log [Enter] w) = (r, w1) \<Longrightarrow>
   execute_with_error_handling func h w = (caught h r, log (handled r @ [Exit]) w1)"
  by (cases r) (auto simp: execute_with_error_handling_def disposition_def split: option.splits)

lemma driver_call_eq:
  "method (store w) = (a, s) \<Longrightarrow>
   driver_call c method w = (a, (log [Call c (raised a)] w)\<lparr>store := s\<rparr>)"
  by (simp add: driver_call_def)

lemma call_document_model_eq:
  "call_document_model self doc w =
     (BaseDocument (document_model self) doc,
      log [Validate doc (raised (BaseDocument (document_model self) doc))] w)"
  by (simp add: call_document_model_def Let_def)

lemma construct_all_eq:
  "construct_all self docs w =
     (validate_all (document_model self) docs,
      log (validation_events (document_model self) docs) w)"
proof (induction docs arbitrary: w)
  case Nil
  show ?case by (simp add: return_def log_def)
next
  case (Cons doc docs)
  show ?case
    by (simp add: and_then_def return_def call_document_model_eq Cons.IH
        split: sum.splits)
qed

lemma validate_docs_eq:
  "validate_docs self (Some docs) w =
     (caught (error_handler self) (validate_all (document_model self) docs),
      log (Enter # validation_events (document_model self) docs
             @ handled (validate_all (document_model self) docs) @ [Exit]) w)"
  by (simp add: validate_docs_def aux_func_def
      boundary_eq [of "construct_all self docs", OF construct_all_eq])


lemma store_calls_validation_events [simp]: "store_calls (validation_events m docs) = []"
  by (induction docs) (auto simp: store_calls_def split: sum.splits)

lemma store_calls_simps [simp]:
  "store_calls [] = []"
  "store_calls (Call c x # evs) = c # store_calls evs"
  "store_calls (Enter # evs) = store_calls evs"
  "store_calls (Exit # evs) = store_calls evs"
  "store_calls (Validate doc x # evs) = store_calls evs"
  "store_calls (Handled e # evs) = store_calls evs"
  "store_calls (evs @ evs') = store_calls evs @ store_calls evs'"
  by (simp_all add: store_calls_def)

lemma validate_all_succeeds:
  "validate_all m docs = Inr vs \<Longrightarrow> doc \<in> set docs \<Longrightarrow> \<exists>d. BaseDocument m doc = Inr d"
  by (induction docs arbitrary: vs) (auto split: sum.splits)

lemma validate_all_fails:
  assumes "\<exists>doc \<in> set docs. \<exists>e. BaseDocument m doc = Inl e"
  shows "\<exists>e. validate_all m docs = Inl e"
proof (cases "validate_all m docs")
  case (Inl e)
  then show ?thesis by simp
next
  case (Inr vs)
  then show ?thesis using assms validate_all_succeeds [OF Inr] by fastforce
qed

lemma BaseDocument_raises: "BaseDocument m doc = Inl e \<Longrightarrow> e = ValidationError"
  by (auto simp: BaseDocument_def Let_def split: option.splits)

lemma validate_all_raises: "validate_all m docs = Inl e \<Longrightarrow> e = ValidationError"
  by (induction docs arbitrary: e) (auto split: sum.splits dest: BaseDocument_raises)

lemma insert_one_valid:
  assumes "BaseDocument (document_model self) doc = Inr d"
    and "coll_insert_many (collection self) [dict d] (store w) = (a, s)"
  shows "insert_one self doc w =
           (caught (error_handler self) a,
            (log ([Enter, Validate doc None, Call (InsertMany [dict d]) (raised a)]
                    @ handled a @ [Exit]) w)\<lparr>store := s\<rparr>)"
proof -
  have inner: "insert_documents self (collection_insert_many self) (OneDoc doc) (log [Enter] w) =
      (a, (log [Enter, Validate doc None, Call (InsertMany [dict d]) (raised a)] w)\<lparr>store := s\<rparr>)"
    using assms
    by (simp add: insert_documents_def and_then_def call_document_model_eq
        collection_insert_many_def driver_call_eq)
  show ?thesis
    unfolding insert_one_def execute_insertion_def
    by (simp add: boundary_eq [of "insert_documents self (collection_insert_many self) (OneDoc doc)", OF inner])
qed

lemma insert_one_invalid:
  assumes "BaseDocument (document_model self) doc = Inl e"
  shows "insert_one self doc w =
           (disposition (error_handler self) e,
            log [Enter, Validate doc (Some e), Handled e, Exit] w)"
proof -
  have e: "is_exception e"
    using BaseDocument_raises [OF assms] by simp
  have inner: "insert_documents self (collection_insert_many self) (OneDoc doc) (log [Enter] w) =
      (Inl e, log [Enter, Validate doc (Some e)] w)"
    using assms
    by (simp add: insert_documents_def and_then_def call_document_model_eq)
  show ?thesis
    unfolding insert_one_def execute_insertion_def
    using e
    by (simp add: boundary_eq [of "insert_documents self (collection_insert_many self) (OneDoc doc)", OF inner])
qed

lemma insert_many_valid:
  assumes "validate_all (document_model self) docs = Inr vs"
    and "coll_insert_many (collection self) (map dict vs) (store w) = (a, s)"
  shows "insert_many self docs w =
           (caught (error_handler self) a,
            (log (Enter # Enter # validation_events (document_model self) docs
                    @ [Exit, Call (InsertMany (map dict vs)) (raised a)]
                    @ handled a @ [Exit]) w)\<lparr>store := s\<rparr>)"
proof -
  have inner: "insert_documents self (collection_insert_many self) (ManyDocs docs) (log [Enter] w) =
      (a, (log (Enter # Enter # validation_events (document_model self) docs
                  @ [Exit, Call (InsertMany (map dict vs)) (raised a)]) w)\<lparr>store := s\<rparr>)"
    using assms
    by (simp add: insert_documents_def and_then_def validate_docs_eq
        collection_insert_many_def driver_call_eq)
  show ?thesis
    unfolding insert_many_def execute_insertion_def
    by (simp add: boundary_eq [of "insert_documents self (collection_insert_many self) (ManyDocs docs)", OF inner])
qed

lemma insert_many_invalid:
  assumes "validate_all (document_model self) docs = Inl e"
  shows "insert_many self docs w =
           (caught (error_handler self) (Inl (second_error (error_handler self) e)),
            log (Enter # Enter # validation_events (document_model self) docs
                   @ [Handled e, Exit]
                   @ handled (Inl (second_error (error_handler self) e) :: exn + pyval)
                   @ [Exit]) w)"
proof -
  have e: "is_exception e"
    using validate_all_raises [OF assms] by simp
  have inner: "insert_documents self (collection_insert_many self) (ManyDocs docs) (log [Enter] w) =
      (Inl (second_error (error_handler self) e),
       log (Enter # Enter # validation_events (document_model self) docs @ [Handled e, Exit]) w)"
    using assms e
    by (simp add: insert_documents_def and_then_def validate_docs_eq raise_def
        disposition_def second_error_def split: option.splits)
  show ?thesis
    unfolding insert_many_def execute_insertion_def
    by (simp add: boundary_eq [of "insert_documents self (collection_insert_many self) (ManyDocs docs)", OF inner])
qed

lemma store_calls_handled [simp]: "store_calls (handled r) = []"
  by (cases r) simp_all

lemma new_events_log [simp]:
  "new_events w (log evs w) = evs"
  "new_events w ((log evs w)\<lparr>store := s\<rparr>) = evs"
  by (simp_all add: new_events_def)

lemma find_agg_eq:
  "find_agg self query pipeline_steps = collection_aggregate self (pipeline_of query pipeline_steps)"
  by (simp add: find_agg_def pipeline_of_def Let_def split: option.splits list.splits)

lemma execute_find_eq:
  assumes "coll_aggregate (collection self) (pipeline_of query pipeline_steps) (store w) = (a, s)"
  shows "execute_find self query pipeline_steps w =
           (caught (error_handler self) a,
            (log ([Enter, Call (Aggregate (pipeline_of query pipeline_steps)) (raised a)]
                    @ handled a @ [Exit]) w)\<lparr>store := s\<rparr>)"
proof -
  have inner: "find_agg self query pipeline_steps (log [Enter] w) =
      (a, (log [Enter, Call (Aggregate (pipeline_of query pipeline_steps)) (raised a)] w)\<lparr>store := s\<rparr>)"
    using assms by (simp add: find_agg_eq collection_aggregate_def driver_call_eq)
  show ?thesis
    unfolding execute_find_def
    by (simp add: boundary_eq [of "find_agg self query pipeline_steps", OF inner])
qed

lemma handle_result_unvalidated:
  "handle_result self result func False w =
     (case func of
        Some f \<Rightarrow> (Inl (UnboundLocalError ''validated_docs''), w)
      | None \<Rightarrow> (Inr (py_result result), w))"
  by (simp add: handle_result_def and_then_def return_def raise_def split: option.splits)

lemma find_eq:
  assumes "coll_aggregate (collection self) (pipeline_of query pipeline_steps) (store w) = (a, s)"
  shows "find self query pipeline_steps handle_func w =
           ((case caught (error_handler self) a of
               Inl e \<Rightarrow> Inl e
             | Inr result \<Rightarrow>
                 (case handle_func of
                    Some f \<Rightarrow> Inl (UnboundLocalError ''validated_docs'')
                  | None \<Rightarrow> Inr (py_result result))),
            (log ([Enter, Call (Aggregate (pipeline_of query pipeline_steps)) (raised a)]
                    @ handled a @ [Exit]) w)\<lparr>store := s\<rparr>)"
  by (simp add: find_def and_then_def execute_find_eq [OF assms] handle_result_unvalidated
      split: sum.splits option.splits)

lemma delete_one_eq:
  assumes "coll_delete_one (collection self) query (store w) = (a, s)"
  shows "delete_one self query w =
           (caught (error_handler self) a,
            (log ([Enter, Call (DeleteOne query) (raised a)] @ handled a @ [Exit]) w)\<lparr>store := s\<rparr>)"
proof -
  have inner: "collection_delete_one self query (log [Enter] w) =
      (a, (log [Enter, Call (DeleteOne query) (raised a)] w)\<lparr>store := s\<rparr>)"
    using assms by (simp add: collection_delete_one_def driver_call_eq)
  show ?thesis
    unfolding delete_one_def execute_delete_def
    by (simp add: boundary_eq [of "collection_delete_one self query", OF inner])
qed

lemma delete_many_eq:
  assumes "coll_delete_many (collection self) query (store w) = (a, s)"
  shows "delete_many self query w =
           (caught (error_handler self) a,
            (log ([Enter, Call (DeleteMany query) (raised a)] @ handled a @ [Exit]) w)\<lparr>store := s\<rparr>)"
proof -
  have inner: "collection_delete_many self query (log [Enter] w) =
      (a, (log [Enter, Call (DeleteMany query) (raised a)] w)\<lparr>store := s\<rparr>)"
    using assms by (simp add: collection_delete_many_def driver_call_eq)
  show ?thesis
    unfolding delete_many_def execute_delete_def
    by (simp add: boundary_eq [of "collection_delete_many self query", OF inner])
qed

lemma execute_update_eq:
  "execute_update self func query update_data w =
     (Inl (AttributeError ''execute_with_handling''), w)"
  by (simp add: execute_update_def and_then_def raise_def)

text \<open>
  Claim C2 (the code departs from it). \<^verbatim>\<open>update_one\<close> and \<^verbatim>\<open>update_many\<close> never
  return the post-update documents: for every filter, patch, store and handler
  they raise \<^verbatim>\<open>AttributeError\<close> for the missing attribute
  \<^verbatim>\<open>execute_with_handling\<close> and leave the world as it was; the store's update is not
  called and nothing is read back.
\<close>

theorem update_raises_attribute_error:
  "update_one self query update_data w = (Inl (AttributeError ''execute_with_handling''), w) \<and>
   update_many self query update_data w = (Inl (AttributeError ''execute_with_handling''), w)"
  by (simp add: update_one_def update_many_def execute_update_eq)

text \<open>
  Claim C3 (the code departs from it). Whatever the store would acknowledge,
  \<^verbatim>\<open>update_one\<close> does not return \<^verbatim>\<open>None\<close> and \<^verbatim>\<open>update_many\<close> does not return the
  empty list: both raise. The part of the claim about the read-back holds: nothing is
  added to the record, so no store call is made at all.
\<close>

theorem update_no_match_raises:
  "fst (update_one self query update_data w) \<noteq> Inr PNone \<and>
   fst (update_many self query update_data w) \<noteq> Inr (PList []) \<and>
   new_events w (snd (update_one self query update_data w)) = [] \<and>
   new_events w (snd (update_many self query update_data w)) = []"
  by (simp add: update_one_def update_many_def execute_update_eq new_events_def)

text \<open>
  Claim C6 (the code departs from it). A find with a post-processing function \<open>f\<close>
  never returns and never applies \<open>f\<close>: when the aggregation fails and the handler
  raises, that exception reaches the caller; in every other case reading the unbound
  \<^verbatim>\<open>validated_docs\<close> raises \<^verbatim>\<open>UnboundLocalError\<close>.
\<close>

theorem find_handle_func_unbound:
  "fst (find self query pipeline_steps (Some f) w) =
     (case caught (error_handler self)
             (fst (coll_aggregate (collection self) (pipeline_of query pipeline_steps) (store w))) of
        Inl e \<Rightarrow> Inl e
      | Inr result \<Rightarrow> Inl (UnboundLocalError ''validated_docs''))"
  by (cases "coll_aggregate (collection self) (pipeline_of query pipeline_steps) (store w)")
     (simp add: find_eq split: sum.splits)

lemma find_raw:
  "coll_aggregate (collection self) (pipeline_of query pipeline_steps) (store w) = (Inr docs, s) \<Longrightarrow>
   fst (find self query pipeline_steps None w) = Inr (PList (map PDict docs))"
  by (simp add: find_eq py_result_def)

text \<open>
  Claim C10. After \<^verbatim>\<open>insert_by_id\<close> the caller's mapping is the mapping it passed
  with \<^verbatim>\<open>_id\<close> set to the given identity, whatever the outcome of the insert (the
  statement holds for every store, handler and document, so also when the insert
  fails), and \<^verbatim>\<open>insert_one\<close> is called with that mapping.
\<close>

theorem insert_by_id_mutates_mapping:
  "fst (insert_by_id self document_id document_data w) =
     AList.update ''_id'' document_id document_data \<and>
   map_of (fst (insert_by_id self document_id document_data w)) ''_id'' = Some document_id \<and>
   snd (insert_by_id self document_id document_data w) =
     insert_one self (AList.update ''_id'' document_id document_data) w"
  by (simp add: insert_by_id_def Let_def update_conv)

lemma raised_disposition [simp]: "raised (disposition h e) = h e"
  by (simp add: disposition_def split: option.splits)

lemma raised_caught [simp]:
  "raised (caught h a) =
     (case a of Inl e \<Rightarrow> (if is_exception e then h e else Some e) | Inr v \<Rightarrow> None)"
  by (cases a) simp_all








lemma nameless_invalid: "BaseDocument sample_model nameless = Inl ValidationError"
  by (simp add: BaseDocument_def nameless_def sample_model_def handle_objectid_def
      validate_field_def mongoid_field_def)

lemma dict_ann_record:
  "dict ann_record = [(''name'', PStr ''ann''), (''city'', PStr ''unknown'')]"
  by (simp add: dict_def model_dict_def ann_record_def)

lemma sample_collection_simps [simp]:
  "document_model (sample_collection h) = sample_model"
  "error_handler (sample_collection h) = h"
  "collection (sample_collection h) = memory_driver"
  by (simp_all add: sample_collection_def)

lemma interrupted_collection_simps [simp]:
  "document_model (interrupted_collection h) = sample_model"
  "error_handler (interrupted_collection h) = h"
  "collection (interrupted_collection h) = interrupted_driver"
  by (simp_all add: interrupted_collection_def)

lemma memory_insert:
  "coll_insert_many memory_driver [d] s = (Inr (insert_ack 1), s @ [d])"
  by (simp add: memory_driver_def)

lemma world0_simps [simp]: "store (world0 s) = s" "trace (world0 s) = []"
  by (simp_all add: world0_def)



text \<open>
  Claim C4 (the code departs from it). On the sample store \<^verbatim>\<open>insert_one\<close> of a valid
  document returns the driver's acknowledgment, which is neither the validated
  record's fields nor its serialized form.
\<close>

theorem insert_one_returns_driver_acknowledgment:
  "BaseDocument sample_model ann = Inr ann_record \<and>
   fst (insert_one (sample_collection swallow) ann (world0 [])) = Inr (Some (insert_ack 1)) \<and>
   insert_ack 1 \<noteq> PDict (model_dict ann_record) \<and>
   insert_ack 1 \<noteq> PDict (dict ann_record)"
  using insert_one_valid [of "sample_collection swallow" ann ann_record "world0 []"
      "Inr (insert_ack 1)" "[dict ann_record]"]
  by (simp add: ann_valid memory_insert insert_ack_def)

text \<open>
  Claim C5. When at least one document of the list fails validation,
  \<^verbatim>\<open>insert_many\<close> leaves the store as it was, makes no store call, and does not
  return an acknowledgment, for every handler.
\<close>

theorem insert_many_all_or_nothing:
  assumes "\<exists>doc \<in> set docs. \<exists>e. BaseDocument (document_model self) doc = Inl e"
  shows "store (snd (insert_many self docs w)) = store w \<and>
         trace (snd (insert_many self docs w)) =
           trace w @ new_events w (snd (insert_many self docs w)) \<and>
         store_calls (new_events w (snd (insert_many self docs w))) = [] \<and>
         (\<forall>ack. fst (insert_many self docs w) \<noteq> Inr (Some ack))"
proof -
  from validate_all_fails [OF assms] obtain e
    where e: "validate_all (document_model self) docs = Inl e" by blast
  note eq = insert_many_invalid [OF e, of w]
  show ?thesis
    by (simp add: eq disposition_def split: option.splits)
qed

theorem insert_many_all_or_nothing_witness:
  "(\<exists>doc \<in> set [ann, nameless]. \<exists>e. BaseDocument sample_model doc = Inl e) \<and>
   store (snd (insert_many (sample_collection swallow) [ann, nameless] (world0 []))) = [] \<and>
   store_calls (new_events (world0 [])
      (snd (insert_many (sample_collection swallow) [ann, nameless] (world0 [])))) = [] \<and>
   fst (insert_many (sample_collection swallow) [ann, nameless] (world0 [])) = Inr None"
proof -
  have bad: "\<exists>doc \<in> set [ann, nameless]. \<exists>e. BaseDocument (document_model (sample_collection swallow)) doc = Inl e"
    by (simp add: nameless_invalid)
  have v: "validate_all (document_model (sample_collection swallow)) [ann, nameless] = Inl ValidationError"
    by (simp add: ann_valid nameless_invalid)
  have r: "fst (insert_many (sample_collection swallow) [ann, nameless] (world0 [])) = Inr None"
    by (simp add: insert_many_invalid [OF v] disposition_def swallow_def second_error_def)
  show ?thesis
    using insert_many_all_or_nothing [OF bad, of "world0 []"] bad r
    by simp
qed

text \<open>
  Claim C9 (the code departs from it). For a document that fails validation the
  single-document branch hands the handler the \<^verbatim>\<open>ValidationError\<close> and nothing else,
  while the list branch then iterates the \<^verbatim>\<open>None\<close> that \<^verbatim>\<open>_validate_docs\<close> returned
  and hands the handler a \<^verbatim>\<open>TypeError\<close> as well: under a handler that swallows
  everything the results are equal and the handler calls differ, and under a handler
  that swallows validation failures and re-raises everything else \<^verbatim>\<open>insert_one\<close>
  returns \<^verbatim>\<open>None\<close> while \<^verbatim>\<open>insert_many\<close> raises \<^verbatim>\<open>TypeError\<close>.
\<close>

theorem insert_paths_differ:
  "BaseDocument sample_model nameless = Inl ValidationError \<and>
   insert_one (sample_collection swallow) nameless (world0 []) =
     (Inr None, log [Enter, Validate nameless (Some ValidationError),
                     Handled ValidationError, Exit] (world0 [])) \<and>
   insert_many (sample_collection swallow) [nameless] (world0 []) =
     (Inr None, log [Enter, Enter, Validate nameless (Some ValidationError),
                     Handled ValidationError, Exit, Handled TypeError, Exit] (world0 [])) \<and>
   fst (insert_one (sample_collection swallow_validation) nameless (world0 [])) = Inr None \<and>
   fst (insert_many (sample_collection swallow_validation) [nameless] (world0 [])) = Inl TypeError"
proof -
  have v: "validate_all sample_model [nameless] = Inl ValidationError"
    by (simp add: nameless_invalid)
  have one: "insert_one (sample_collection h) nameless (world0 []) =
     (disposition h ValidationError,
      log [Enter, Validate nameless (Some ValidationError), Handled ValidationError, Exit] (world0 []))" for h
    using insert_one_invalid [of "sample_collection h" nameless ValidationError "world0 []"]
    by (simp add: nameless_invalid)
  have many: "insert_many (sample_collection h) [nameless] (world0 []) =
     (caught h (Inl (second_error h ValidationError)),
      log (Enter # Enter # validation_events sample_model [nameless]
             @ [Handled ValidationError, Exit]
             @ handled (Inl (second_error h ValidationError) :: exn + pyval)
             @ [Exit]) (world0 []))" for h
    using insert_many_invalid [of "sample_collection h" "[nameless]" ValidationError "world0 []"] v
    by simp
  show ?thesis
    by (simp add: one many nameless_invalid disposition_def second_error_def swallow_def)
qed

section \<open>Further properties of the operations\<close>

text \<open>\<^verbatim>\<open>BaseDocument\<close> itself, with no declared field, meets both conditions on a
  model class.\<close>

lemma plain_model: "declared m = [] \<Longrightarrow> wf_model m \<and> stable_model m"
  by (simp add: wf_model_def stable_model_def)

text \<open>
  Without a post-processing function, a find whose aggregation succeeds makes that
  one store call and returns the documents as the store gave them; no document is
  constructed, so nothing is validated.
\<close>

theorem find_returns_raw_documents:
  assumes "coll_aggregate (collection self) (pipeline_of query pipeline_steps) (store w) = (Inr docs, s)"
  shows "find self query pipeline_steps None w =
           (Inr (PList (map PDict docs)),
            (log [Enter, Call (Aggregate (pipeline_of query pipeline_steps)) None, Exit] w)\<lparr>store := s\<rparr>)"
  by (simp add: find_eq [OF assms] py_result_def)

theorem find_returns_raw_documents_witness:
  "coll_aggregate memory_driver (pipeline_of [] None) [nameless] = (Inr [nameless], [nameless]) \<and>
   fst (find (sample_collection swallow) [] None None (world0 [nameless])) =
     Inr (PList [PDict nameless]) \<and>
   BaseDocument sample_model nameless = Inl ValidationError"
proof -
  have a: "coll_aggregate (collection (sample_collection swallow)) (pipeline_of [] None)
             (store (world0 [nameless])) = (Inr [nameless], [nameless])"
    by (simp add: memory_driver_def)
  show ?thesis
    using find_returns_raw_documents [OF a] a
    by (simp add: nameless_invalid)
qed

text \<open>
  The identity given to \<^verbatim>\<open>insert_by_id\<close> does not reach the store: the constructor
  moves \<^verbatim>\<open>_id\<close> to \<^verbatim>\<open>mongoid\<close>, and \<^verbatim>\<open>dict\<close> leaves \<^verbatim>\<open>mongoid\<close> out, so the batch
  submitted holds the document without any identity field.
\<close>

theorem insert_by_id_drops_identity:
  assumes "wf_model (document_model self)"
    and "BaseDocument (document_model self) (AList.update ''_id'' document_id document_data) = Inr d"
  shows "store_calls (new_events w (snd (snd (insert_by_id self document_id document_data w)))) =
           [InsertMany [dict d]] \<and>
         ''_id'' \<notin> fst ` set (dict d) \<and>
         mongoid d = PStr (str_of (document_model self) document_id)"
proof -
  obtain a s where a: "coll_insert_many (collection self) [dict d] (store w) = (a, s)"
    by (cases "coll_insert_many (collection self) [dict d] (store w)")
  have id: "map_of (AList.update ''_id'' document_id document_data) ''_id'' = Some document_id"
    by (simp add: update_conv)
  have calls: "store_calls (new_events w (snd (snd (insert_by_id self document_id document_data w)))) =
           [InsertMany [dict d]]"
    by (simp add: insert_by_id_def Let_def insert_one_valid [OF assms(2) a])
  have keys: "map fst (field_values d) = map fname (declared (document_model self))"
    using dict_wf(2) [OF assms] .
  have "''_id'' \<notin> set (map fst (field_values d))"
    using wf_model_names [OF assms(1)] keys by simp
  then have noid: "''_id'' \<notin> fst ` set (dict d)"
    using dict_wf(1) [OF assms] by simp
  have mid: "mongoid d = PStr (str_of (document_model self) document_id)"
    using assms(2) id
    by (auto simp: BaseDocument_def validate_mongoid_with_id split: option.splits)
  show ?thesis using calls noid mid by simp
qed

theorem insert_by_id_drops_identity_witness:
  "wf_model sample_model \<and>
   BaseDocument sample_model (AList.update ''_id'' (PObjectId ''65a0'') [(''name'', PStr ''ann'')]) =
     Inr ann_record \<and>
   store (snd (snd (insert_by_id (sample_collection swallow) (PObjectId ''65a0'')
                      [(''name'', PStr ''ann'')] (world0 [])))) =
     [[(''name'', PStr ''ann''), (''city'', PStr ''unknown'')]]"
proof -
  have v: "BaseDocument (document_model (sample_collection swallow))
             (AList.update ''_id'' (PObjectId ''65a0'') [(''name'', PStr ''ann'')]) = Inr ann_record"
    by (simp add: BaseDocument_def ann_record_def sample_model_def handle_objectid_def
      validate_field_def mongoid_field_def)
  have wf: "wf_model (document_model (sample_collection swallow))"
    by (simp add: sample_wf)
  have st: "store (snd (snd (insert_by_id (sample_collection swallow) (PObjectId ''65a0'')
                      [(''name'', PStr ''ann'')] (world0 [])))) =
     [[(''name'', PStr ''ann''), (''city'', PStr ''unknown'')]]"
    using insert_one_valid [OF v, of "world0 []" "Inr (insert_ack 1)" "[dict ann_record]"] v
    by (simp add: insert_by_id_def Let_def memory_insert dict_ann_record)
  show ?thesis
    using insert_by_id_drops_identity [OF wf v, of "world0 []"] st v sample_wf
    by simp
qed

text \<open>
  \<^verbatim>\<open>delete_one\<close> and \<^verbatim>\<open>delete_many\<close> return the driver's acknowledgment as it is.
\<close>

theorem delete_returns_acknowledgment:
  "(coll_delete_one (collection self) query (store w) = (Inr ack, s) \<longrightarrow>
      fst (delete_one self query w) = Inr (Some ack) \<and> store (snd (delete_one self query w)) = s) \<and>
   (coll_delete_many (collection self) query (store w) = (Inr ack, s) \<longrightarrow>
      fst (delete_many self query w) = Inr (Some ack) \<and> store (snd (delete_many self query w)) = s)"
  by (auto simp: delete_one_eq delete_many_eq)

theorem delete_returns_acknowledgment_witness:
  "coll_delete_one memory_driver [] [nameless] = (Inr (delete_ack 1), []) \<and>
   fst (delete_one (sample_collection swallow) [] (world0 [nameless])) = Inr (Some (delete_ack 1)) \<and>
   coll_delete_many memory_driver [] [nameless] = (Inr (delete_ack 1), []) \<and>
   fst (delete_many (sample_collection swallow) [] (world0 [nameless])) = Inr (Some (delete_ack 1))"
  using delete_returns_acknowledgment [of "sample_collection swallow" "[]" "world0 [nameless]" "delete_ack 1" "[]"]
  by (simp add: memory_driver_def)

text \<open>
  For a document that validates, the single-document branch and the list branch
  make the same store call, end in the same store and give the same result,
  whether the store call succeeds or raises.
\<close>

theorem insert_paths_agree_when_valid:
  assumes "BaseDocument (document_model self) doc = Inr d"
  shows "fst (insert_one self doc w) = fst (insert_many self [doc] w) \<and>
         store (snd (insert_one self doc w)) = store (snd (insert_many self [doc] w)) \<and>
         store_calls (new_events w (snd (insert_one self doc w))) = [InsertMany [dict d]] \<and>
         store_calls (new_events w (snd (insert_many self [doc] w))) = [InsertMany [dict d]]"
proof -
  obtain a s where a: "coll_insert_many (collection self) [dict d] (store w) = (a, s)"
    by (cases "coll_insert_many (collection self) [dict d] (store w)")
  have v: "validate_all (document_model self) [doc] = Inr [d]"
    by (simp add: assms)
  have a': "coll_insert_many (collection self) (map dict [d]) (store w) = (a, s)"
    using a by simp
  show ?thesis
    by (simp add: insert_one_valid [OF assms a] insert_many_valid [OF v a'] assms)
qed

theorem insert_paths_agree_when_valid_witness:
  "BaseDocument sample_model ann = Inr ann_record \<and>
   fst (insert_one (sample_collection swallow_validation) ann (world0 [])) = Inr (Some (insert_ack 1)) \<and>
   fst (insert_many (sample_collection swallow_validation) [ann] (world0 [])) = Inr (Some (insert_ack 1))"
proof -
  have v: "BaseDocument (document_model (sample_collection swallow_validation)) ann = Inr ann_record"
    by (simp add: ann_valid)
  have one: "fst (insert_one (sample_collection swallow_validation) ann (world0 [])) = Inr (Some (insert_ack 1))"
    using insert_one_valid [OF v, of "world0 []" "Inr (insert_ack 1)" "[dict ann_record]"]
    by (simp add: memory_insert)
  show ?thesis
    using insert_paths_agree_when_valid [OF v, of "world0 []"] one ann_valid
    by simp
qed

end
